theory Spec2Isabelle
  imports Main
begin

section \<open>Python values used by the reporters\<close>

text \<open>
  The reporters of \<^verbatim>\<open>wavefront_pyformance/wavefront_reporter.py\<close> format metric
  readings into text lines and hand them to a socket or to an HTTP client. Python
  strings are modelled as \<^typ>\<open>string\<close>, dictionaries as association lists in iteration
  order, Python's unbounded integers as \<^typ>\<open>int\<close>. The readings kept in the registry
  and the timestamps are Python integers; the line formatter is modelled for every
  numeric value, through the text that Python's \<^verbatim>\<open>format\<close> gives for it.
\<close>

text \<open>\<^verbatim>\<open>'{}'.format(n)\<close> for an integer \<open>n\<close>: its decimal digits, with a leading minus sign.\<close>

definition digit_char :: "nat \<Rightarrow> char" where
  "digit_char d = ''0123456789'' ! d"

function str_nat :: "nat \<Rightarrow> string" where
  "str_nat n = (if n < 10 then [digit_char n] else str_nat (n div 10) @ [digit_char (n mod 10)])"
  by pat_completeness auto
termination
  by (relation "measure (\<lambda>n. n)") auto

declare str_nat.simps [simp del]

definition str_int :: "int \<Rightarrow> string" where
  "str_int i = (if i < 0 then CHR ''-'' # str_nat (nat (- i)) else str_nat (nat i))"

text \<open>\<^verbatim>\<open>sep.join(xs)\<close>\<close>

fun join :: "string \<Rightarrow> string list \<Rightarrow> string" where
  "join sep [] = []"
| "join sep [x] = x"
| "join sep (x # y # ys) = x @ sep @ join sep (y # ys)"

text \<open>The exceptions the module raises itself, or lets through.\<close>

datatype error =
  NotImplementedError string
  | ValueError string

section \<open>The metrics registry (pyformance) and the delta module\<close>

text \<open>
  The registry is pyformance's \<^verbatim>\<open>MetricsRegistry\<close>, an external collaborator. The model
  keeps what the reporter touches: the dictionary of counters (a delta counter is a
  counter registered as such), and the dumps of every other metric (gauges, histograms,
  meters, timers) as the value dictionaries \<^verbatim>\<open>dump_metrics\<close> returns for them. The
  counters and the other metrics are kept in dictionaries of their own, so the same key
  may stand in both lists.
\<close>

record counter =
  delta :: bool
  count :: int

record registry =
  counters :: "(string \<times> counter) list"
  others :: "(string \<times> (string \<times> int) list) list"

text \<open>
  \<^verbatim>\<open>registry.dump_metrics()\<close>: a fresh dictionary, key to (value key to value); a
  counter dumps as \<^verbatim>\<open>{'count': n}\<close>. Counters come first in pyformance's iteration.
\<close>

definition dump_counter :: "string \<times> counter \<Rightarrow> string \<times> (string \<times> int) list" where
  "dump_counter kc = (fst kc, [(''count'', count (snd kc))])"

definition dump_metrics :: "registry \<Rightarrow> (string \<times> (string \<times> int) list) list" where
  "dump_metrics reg = map dump_counter (counters reg) @ others reg"

text \<open>
  \<^verbatim>\<open>registry.counter(key).dec(v)\<close>: \<^verbatim>\<open>counter(key)\<close> returns the counter registered
  under the key, creating a plain counter at 0 when there is none; \<^verbatim>\<open>dec\<close> subtracts.
\<close>

fun dec_counter :: "string \<Rightarrow> int \<Rightarrow> (string \<times> counter) list \<Rightarrow> (string \<times> counter) list" where
  "dec_counter key v [] = [(key, \<lparr>delta = False, count = 0 - v\<rparr>)]"
| "dec_counter key v ((k, c) # cs) =
     (if k = key then (k, c\<lparr>count := count c - v\<rparr>) # cs else (k, c) # dec_counter key v cs)"

definition counter_dec :: "string \<Rightarrow> int \<Rightarrow> registry \<Rightarrow> registry" where
  "counter_dec key v reg = reg\<lparr>counters := dec_counter key v (counters reg)\<rparr>"

text \<open>
  Modelled from the spec: \<^verbatim>\<open>delta.is_delta_counter(key, registry)\<close>, of the package's
  \<^verbatim>\<open>delta\<close> module, which is not among the sources. The spec describes a pure,
  side-effect-free predicate, true only for counters registered as delta counters.
  \<^verbatim>\<open>delta.get_delta_name(prefix, name, value_key)\<close> is missing as well; the spec fixes
  only that it is a deterministic function of its three arguments, so the functions
  below take it as the parameter \<open>gdn\<close>.
\<close>

definition is_delta_counter :: "string \<Rightarrow> registry \<Rightarrow> bool" where
  "is_delta_counter key reg =
     (case map_of (counters reg) key of None \<Rightarrow> False | Some c \<Rightarrow> delta c)"

section \<open>WavefrontReporter: the base reporter\<close>

record reporter =
  registry :: registry
  source :: string
  prefix :: string
  tagStr :: string

text \<open>
  The fields \<^verbatim>\<open>__init__\<close> sets; \<^verbatim>\<open>registry\<close> is the one the parent class keeps (the
  reporting interval and the clock belong to the scheduler and are left out).
  \<^verbatim>\<open>__init__\<close>: \<^verbatim>\<open>tags = tags or {}\<close>, then the tag string is rendered once,
  \<^verbatim>\<open>' '.join('"%s"="%s"' % (k, v) for k, v in tags.items())\<close>.
\<close>

definition render_tag :: "string \<times> string \<Rightarrow> string" where
  \<open>render_tag kv = ''"'' @ fst kv @ ''"="'' @ snd kv @ ''"''\<close>

definition WavefrontReporter_init ::
  "string \<Rightarrow> registry \<Rightarrow> string \<Rightarrow> (string \<times> string) list option \<Rightarrow> reporter" where
  "WavefrontReporter_init src reg pfx tags =
     (let tags1 = (case tags of None \<Rightarrow> [] | Some d \<Rightarrow> d)
      in \<lparr>registry = reg, source = src, prefix = pfx,
          tagStr = join '' '' (map render_tag tags1)\<rparr>)"

text \<open>\<^verbatim>\<open>report_now\<close> of the base class raises, whatever it is given.\<close>

definition WavefrontReporter_report_now ::
  "'a reporter_scheme \<Rightarrow> registry option \<Rightarrow> int option \<Rightarrow> error + unit" where
  "WavefrontReporter_report_now self reg timestamp =
     Inl (NotImplementedError ''use WavefrontProxyReporter or WavefrontDirectReporter'')"

text \<open>
  \<^verbatim>\<open>_get_metric_line\<close>. The test \<^verbatim>\<open>if timestamp:\<close> is Python truthiness: \<^verbatim>\<open>None\<close>
  and \<^verbatim>\<open>0\<close> both take the second format. The value enters the line as the text
  \<^verbatim>\<open>'{}'.format(value)\<close> gives for it; \<open>fmt\<close> is that rendering, for whatever type the
  numeric value has (for a Python integer it is \<open>str_int\<close>; for a float it is Python's
  own text of the float, which the model does not compute).
\<close>

definition truthy :: "int option \<Rightarrow> bool" where
  "truthy t = (case t of None \<Rightarrow> False | Some n \<Rightarrow> n \<noteq> 0)"

definition get_metric_line_fmt ::
  "('v \<Rightarrow> string) \<Rightarrow> 'a reporter_scheme \<Rightarrow> string \<Rightarrow> 'v \<Rightarrow> int option \<Rightarrow> string" where
  \<open>get_metric_line_fmt fmt self name v timestamp =
     (if truthy timestamp
      then name @ '' '' @ fmt v @ '' '' @ str_int (the timestamp)
             @ '' source="'' @ source self @ ''" '' @ tagStr self
      else name @ '' '' @ fmt v @ '' source="'' @ source self @ ''" '' @ tagStr self)\<close>

text \<open>The readings of the registry model are integers: the collector formats them so.\<close>

definition get_metric_line :: "'a reporter_scheme \<Rightarrow> string \<Rightarrow> int \<Rightarrow> int option \<Rightarrow> string" where
  "get_metric_line self name v timestamp = get_metric_line_fmt str_int self name v timestamp"

text \<open>\<^verbatim>\<open>_get_metric_name\<close>\<close>

definition get_metric_name ::
  "(string \<Rightarrow> string \<Rightarrow> string \<Rightarrow> string) \<Rightarrow> string \<Rightarrow> string \<Rightarrow> string \<Rightarrow> bool \<Rightarrow> string" where
  "get_metric_name gdn pfx name value_key is_delta =
     (if is_delta then gdn pfx name value_key else pfx @ name @ ''.'' @ value_key)"

text \<open>
  \<^verbatim>\<open>_collect_metrics\<close>. The inner loop runs over the value dictionary of one key, the
  outer loop over the snapshot; both thread the live registry (which \<^verbatim>\<open>dec\<close> mutates)
  and the list \<^verbatim>\<open>metrics_data\<close>. The amount subtracted and the value rendered are the
  same snapshot entry \<^verbatim>\<open>metrics[key][value_key]\<close>.
\<close>

fun collect_values ::
  "(string \<Rightarrow> string \<Rightarrow> string \<Rightarrow> string) \<Rightarrow> 'a reporter_scheme \<Rightarrow> int option \<Rightarrow> string \<Rightarrow> bool \<Rightarrow>
   (string \<times> int) list \<Rightarrow> registry \<times> string list \<Rightarrow> registry \<times> string list" where
  "collect_values gdn self timestamp key is_delta [] st = st"
| "collect_values gdn self timestamp key is_delta ((value_key, v) # rest) (reg, metrics_data) =
     (let reg1 = (if is_delta then counter_dec key v reg else reg);
          metric_name = get_metric_name gdn (prefix self) key value_key is_delta;
          metric_line = get_metric_line self metric_name v timestamp
      in collect_values gdn self timestamp key is_delta rest (reg1, metrics_data @ [metric_line]))"

fun collect_keys ::
  "(string \<Rightarrow> string \<Rightarrow> string \<Rightarrow> string) \<Rightarrow> 'a reporter_scheme \<Rightarrow> int option \<Rightarrow>
   (string \<times> (string \<times> int) list) list \<Rightarrow> registry \<times> string list \<Rightarrow> registry \<times> string list" where
  "collect_keys gdn self timestamp [] st = st"
| "collect_keys gdn self timestamp ((key, vals) # rest) (reg, metrics_data) =
     (let is_delta = is_delta_counter key reg
      in collect_keys gdn self timestamp rest
           (collect_values gdn self timestamp key is_delta vals (reg, metrics_data)))"

definition collect_metrics ::
  "(string \<Rightarrow> string \<Rightarrow> string \<Rightarrow> string) \<Rightarrow> 'a reporter_scheme \<Rightarrow> registry \<Rightarrow> int option \<Rightarrow>
   registry \<times> string list" where
  "collect_metrics gdn self reg timestamp =
     collect_keys gdn self timestamp (dump_metrics reg) (reg, [])"

section \<open>WavefrontProxyReporter: delivery over a socket\<close>

text \<open>
  The socket library is external. A run is driven by \<open>net\<close>, which gives the outcome of
  the \<open>i\<close>-th socket operation (a \<^verbatim>\<open>connect\<close> or a \<^verbatim>\<open>send\<close>) of the run: it returns, or
  raises \<^verbatim>\<open>socket.error\<close>, or raises some other exception. The world counts the
  operations and the sockets made by \<^verbatim>\<open>socket_factory\<close> (a socket is its number), and
  keeps the trace of what the reporter did. \<^verbatim>\<open>send\<close> is handed the whole byte string
  \<^verbatim>\<open>line.encode('utf-8') + b'\n'\<close>; a \<^typ>\<open>string\<close> is a byte string already.
\<close>

datatype exn = SocketError | OtherException

datatype sock_result = Ok | Raises exn

datatype sock_event =
  Connect nat string int sock_result
  | Send nat string sock_result
  | is_LogError: LogError exn

record sock_world =
  ops :: nat
  created :: nat
  sock_events :: "sock_event list"

record proxy_reporter = reporter +
  host :: string
  port :: int
  proxy_socket :: "nat option"


text \<open>
  \<^verbatim>\<open>_connect\<close>: the new socket is stored in \<^verbatim>\<open>self.proxy_socket\<close> before \<^verbatim>\<open>connect\<close>
  is called on it, so it stays there when \<^verbatim>\<open>connect\<close> raises.
\<close>

definition proxy_connect ::
  "(nat \<Rightarrow> sock_result) \<Rightarrow> proxy_reporter \<Rightarrow> sock_world \<Rightarrow>
   sock_result \<times> proxy_reporter \<times> sock_world" where
  "proxy_connect net self w =
     (let h = created w;
          self1 = self\<lparr>proxy_socket := Some h\<rparr>;
          r = net (ops w);
          w1 = w\<lparr>ops := ops w + 1, created := h + 1,
                 sock_events := sock_events w @ [Connect h (host self) (port self) r]\<rparr>
      in (r, self1, w1))"

text \<open>The loop \<^verbatim>\<open>for line in metrics: self.proxy_socket.send(...)\<close>; it stops at the first raise.\<close>

fun send_lines ::
  "(nat \<Rightarrow> sock_result) \<Rightarrow> nat \<Rightarrow> string list \<Rightarrow> sock_world \<Rightarrow> sock_result \<times> sock_world" where
  "send_lines net h [] w = (Ok, w)"
| "send_lines net h (line # rest) w =
     (let r = net (ops w);
          w1 = w\<lparr>ops := ops w + 1,
                 sock_events := sock_events w @ [Send h (line @ [CHR 0x0A]) r]\<rparr>
      in case r of Ok \<Rightarrow> send_lines net h rest w1 | Raises e \<Rightarrow> (Raises e, w1))"

text \<open>The body of the \<^verbatim>\<open>try\<close> block of \<^verbatim>\<open>_report_points\<close>.\<close>

definition proxy_report_points_try ::
  "(nat \<Rightarrow> sock_result) \<Rightarrow> proxy_reporter \<Rightarrow> string list \<Rightarrow> sock_world \<Rightarrow>
   sock_result \<times> proxy_reporter \<times> sock_world" where
  "proxy_report_points_try net self metrics w =
     (case proxy_socket self of
        Some h \<Rightarrow> (case send_lines net h metrics w of (r, w1) \<Rightarrow> (r, self, w1))
      | None \<Rightarrow>
          (case proxy_connect net self w of
             (Raises e, self1, w1) \<Rightarrow> (Raises e, self1, w1)
           | (Ok, self1, w1) \<Rightarrow>
               (case send_lines net (created w) metrics w1 of (r, w2) \<Rightarrow> (r, self1, w2))))"

text \<open>
  \<^verbatim>\<open>_report_points(metrics, reconnect=True)\<close>: \<^verbatim>\<open>socket.error\<close> is retried once, with
  \<^verbatim>\<open>reconnect=False\<close>; the second \<^verbatim>\<open>socket.error\<close>, and any other exception, is logged.
\<close>

definition log_error :: "exn \<Rightarrow> sock_world \<Rightarrow> sock_world" where
  "log_error e w = w\<lparr>sock_events := sock_events w @ [LogError e]\<rparr>"

function proxy_report_points ::
  "(nat \<Rightarrow> sock_result) \<Rightarrow> proxy_reporter \<Rightarrow> string list \<Rightarrow> bool \<Rightarrow> sock_world \<Rightarrow>
   proxy_reporter \<times> sock_world" where
  "proxy_report_points net self metrics reconnect w =
     (case proxy_report_points_try net self metrics w of
        (Ok, self1, w1) \<Rightarrow> (self1, w1)
      | (Raises SocketError, self1, w1) \<Rightarrow>
          (if reconnect
           then proxy_report_points net (self1\<lparr>proxy_socket := None\<rparr>) metrics False w1
           else (self1, log_error SocketError w1))
      | (Raises OtherException, self1, w1) \<Rightarrow> (self1, log_error OtherException w1))"
  by pat_completeness auto
termination
  by (relation "measure (\<lambda>(net, self, metrics, reconnect, w). if reconnect then 1 else 0)") auto

declare proxy_report_points.simps [simp del]

text \<open>
  \<^verbatim>\<open>report_now\<close> of the proxy reporter; \<open>now\<close> is \<^verbatim>\<open>int(round(self.clock.time()))\<close>. The
  result carries the registry that was read, after the decrements.
\<close>

definition proxy_report_now ::
  "(string \<Rightarrow> string \<Rightarrow> string \<Rightarrow> string) \<Rightarrow> (nat \<Rightarrow> sock_result) \<Rightarrow> int \<Rightarrow> proxy_reporter \<Rightarrow>
   registry option \<Rightarrow> int option \<Rightarrow> sock_world \<Rightarrow> proxy_reporter \<times> registry \<times> sock_world" where
  "proxy_report_now gdn net now self reg timestamp w =
     (let timestamp1 = (if truthy timestamp then the timestamp else now);
          reg0 = (case reg of None \<Rightarrow> registry self | Some r \<Rightarrow> r);
          (reg1, metrics) = collect_metrics gdn self reg0 (Some timestamp1)
      in if metrics \<noteq> []
         then (case proxy_report_points net self metrics True w of (self1, w1) \<Rightarrow> (self1, reg1, w1))
         else (self, reg1, w))"

section \<open>WavefrontDirectReporter: delivery by HTTP POST\<close>

text \<open>
  \<^verbatim>\<open>urlparse\<close> is Python's; the reporter reads the scheme and the network location of
  its result. The functions below take the parser as the parameter \<open>up\<close> (it may raise
  \<^verbatim>\<open>ValueError\<close> itself); \<open>urlparse\<close> models how CPython's \<^verbatim>\<open>urlsplit\<close> finds the two
  components: leading control characters and spaces are stripped, tab, CR and LF are
  removed, the scheme is what stands before the first colon when that is a letter
  followed by letters, digits, \<^verbatim>\<open>+\<close>, \<^verbatim>\<open>-\<close> or \<^verbatim>\<open>.\<close>, and the network location follows
  \<^verbatim>\<open>//\<close> up to the first \<^verbatim>\<open>/\<close>, \<^verbatim>\<open>?\<close> or \<^verbatim>\<open>#\<close>, with unbalanced brackets refused.
\<close>

record parsed_url =
  scheme :: string
  netloc :: string

definition is_alpha :: "char \<Rightarrow> bool" where
  "is_alpha c = (c \<in> set ''abcdefghijklmnopqrstuvwxyzABCDEFGHIJKLMNOPQRSTUVWXYZ'')"

definition scheme_char :: "char \<Rightarrow> bool" where
  "scheme_char c = (is_alpha c \<or> c \<in> set ''0123456789+-.'')"

definition lower_char :: "char \<Rightarrow> char" where
  "lower_char c =
     (case map_of (zip ''ABCDEFGHIJKLMNOPQRSTUVWXYZ'' ''abcdefghijklmnopqrstuvwxyz'') c of
        None \<Rightarrow> c | Some l \<Rightarrow> l)"

definition urlparse :: "string \<Rightarrow> error + parsed_url" where
  "urlparse url0 =
     (let url1 = filter (\<lambda>c. c \<notin> {CHR 0x09, CHR 0x0A, CHR 0x0D})
                   (dropWhile (\<lambda>c. (of_char c :: nat) \<le> 32) url0);
          head = takeWhile (\<lambda>c. c \<noteq> CHR '':'') url1;
          has_scheme = (length head < length url1 \<and> head \<noteq> [] \<and> is_alpha (hd head)
                        \<and> list_all scheme_char head);
          sch = (if has_scheme then map lower_char head else []);
          url2 = (if has_scheme then drop (length head + 1) url1 else url1);
          loc = (if take 2 url2 = ''//''
                 then takeWhile (\<lambda>c. c \<notin> {CHR ''/'', CHR ''?'', CHR ''#''}) (drop 2 url2)
                 else [])
      in if (CHR ''['' \<in> set loc) \<noteq> (CHR '']'' \<in> set loc)
         then Inl (ValueError ''Invalid IPv6 URL'')
         else Inr \<lparr>scheme = sch, netloc = loc\<rparr>)"

text \<open>\<^verbatim>\<open>_validate_url\<close>: \<^verbatim>\<open>all((scheme, netloc))\<close> holds when neither string is empty.\<close>

definition validate_url :: "(string \<Rightarrow> error + parsed_url) \<Rightarrow> string \<Rightarrow> error + string" where
  "validate_url up srv =
     (case up srv of
        Inl e \<Rightarrow> Inl e
      | Inr parsed_url \<Rightarrow>
          if \<not> (scheme parsed_url \<noteq> [] \<and> netloc parsed_url \<noteq> [])
          then Inl (ValueError ''invalid server url'')
          else Inr srv)"

record direct_reporter = reporter +
  server :: string
  token :: string
  batch_size :: int
  headers :: "(string \<times> string) list"
  params :: "(string \<times> string) list"

text \<open>\<^verbatim>\<open>__init__\<close>: the parent's set-up, then the validation, which may raise.\<close>

definition WavefrontDirectReporter_init ::
  "(string \<Rightarrow> error + parsed_url) \<Rightarrow> string \<Rightarrow> string \<Rightarrow> string \<Rightarrow> registry \<Rightarrow> string \<Rightarrow>
   (string \<times> string) list option \<Rightarrow> error + direct_reporter" where
  "WavefrontDirectReporter_init up srv tok src reg pfx tags =
     (let base = WavefrontReporter_init src reg pfx tags
      in case validate_url up srv of
           Inl e \<Rightarrow> Inl e
         | Inr srv1 \<Rightarrow>
             Inr (reporter.extend base
                    (direct_reporter.fields srv1 tok 10000
                       [(''Content-Type'', ''text/plain''), (''Authorization'', ''Bearer '' @ tok)]
                       [(''f'', ''graphite_v2'')])))"

text \<open>
  \<^verbatim>\<open>_get_chunks\<close>: \<^verbatim>\<open>range(0, len(metrics), chunk_size)\<close> raises \<^verbatim>\<open>ValueError\<close> for a step
  of zero and is empty for a negative step; otherwise \<open>i\<close> runs over the multiples of the
  chunk size below the length, and \<^verbatim>\<open>metrics[i:i+chunk_size]\<close> is yielded for each.
\<close>

function chunks_from :: "nat \<Rightarrow> string list \<Rightarrow> nat \<Rightarrow> string list list" where
  "chunks_from i metrics chunk_size =
     (if 0 < chunk_size \<and> i < length metrics
      then take chunk_size (drop i metrics) # chunks_from (i + chunk_size) metrics chunk_size
      else [])"
  by pat_completeness auto
termination
  by (relation "measure (\<lambda>(i, metrics, chunk_size). length metrics - i)") auto

declare chunks_from.simps [simp del]

definition get_chunks :: "string list \<Rightarrow> int \<Rightarrow> error + string list list" where
  "get_chunks metrics chunk_size =
     (if chunk_size = 0 then Inl (ValueError ''range() arg 3 must not be zero'')
      else if chunk_size < 0 then Inr []
      else Inr (chunks_from 0 metrics (nat chunk_size)))"

text \<open>
  The HTTP client (\<^verbatim>\<open>requests\<close>) is external. \<open>respond\<close> gives what the \<open>i\<close>-th
  \<^verbatim>\<open>requests.post\<close> of the run does: it returns a response with a status code, or raises
  (a transport error). \<^verbatim>\<open>response.raise_for_status()\<close> raises \<^verbatim>\<open>HTTPError\<close> for the
  status codes 400 to 599 and returns for every other code.
\<close>

datatype http_result = Status int | PostRaises

datatype http_failure = RequestException | HTTPError int

datatype http_event =
  is_Post: Post string "(string \<times> string) list" "(string \<times> string) list" string
  | LogFailure http_failure

record http_world =
  posts :: nat
  http_events :: "http_event list"

definition raise_for_status :: "int \<Rightarrow> bool" where
  "raise_for_status status = (400 \<le> status \<and> status < 600)"

text \<open>\<^verbatim>\<open>_report_points\<close> of the direct reporter: every exception is caught and logged.\<close>

definition direct_report_points ::
  "(nat \<Rightarrow> http_result) \<Rightarrow> direct_reporter \<Rightarrow> string \<Rightarrow> http_world \<Rightarrow> http_world" where
  "direct_report_points respond self points w =
     (let w1 = w\<lparr>posts := posts w + 1,
                 http_events := http_events w @
                   [Post (server self @ ''/report'') (params self) (headers self) points]\<rparr>
      in case respond (posts w) of
           PostRaises \<Rightarrow> w1\<lparr>http_events := http_events w1 @ [LogFailure RequestException]\<rparr>
         | Status status \<Rightarrow>
             if raise_for_status status
             then w1\<lparr>http_events := http_events w1 @ [LogFailure (HTTPError status)]\<rparr>
             else w1)"

text \<open>The loop \<^verbatim>\<open>for chunk in chunks\<close> of \<^verbatim>\<open>report_now\<close>.\<close>

fun report_chunks ::
  "(nat \<Rightarrow> http_result) \<Rightarrow> direct_reporter \<Rightarrow> string list list \<Rightarrow> http_world \<Rightarrow> http_world" where
  "report_chunks respond self [] w = w"
| "report_chunks respond self (chunk # chunks) w =
     (let metrics_str = join [CHR 0x0A] chunk
      in report_chunks respond self chunks (direct_report_points respond self metrics_str w))"

text \<open>
  \<^verbatim>\<open>report_now\<close> of the direct reporter. The timestamp argument is not used: the
  collection is called without one. The result is the exception that leaves the call
  (only the \<^verbatim>\<open>ValueError\<close> of a zero batch size can), the registry that was read, after
  the decrements, and the world.
\<close>

definition direct_report_now ::
  "(string \<Rightarrow> string \<Rightarrow> string \<Rightarrow> string) \<Rightarrow> (nat \<Rightarrow> http_result) \<Rightarrow> direct_reporter \<Rightarrow>
   registry option \<Rightarrow> int option \<Rightarrow> http_world \<Rightarrow> error option \<times> registry \<times> http_world" where
  "direct_report_now gdn respond self reg timestamp w =
     (let reg0 = (case reg of None \<Rightarrow> registry self | Some r \<Rightarrow> r);
          (reg1, metrics) = collect_metrics gdn self reg0 None
      in if metrics \<noteq> []
         then (case get_chunks metrics (batch_size self) of
                 Inl e \<Rightarrow> (Some e, reg1, w)
               | Inr chunks \<Rightarrow> (None, reg1, report_chunks respond self chunks w))
         else (None, reg1, w))"

section \<open>Lemmas about the collector\<close>

lemma map_of_dec_counter:
  "map_of (dec_counter key v cs) k =
     (if k = key
      then Some (case map_of cs key of None \<Rightarrow> \<lparr>delta = False, count = 0 - v\<rparr>
                 | Some c \<Rightarrow> c\<lparr>count := count c - v\<rparr>)
      else map_of cs k)"
  by (induction cs) auto

lemma is_delta_counter_dec:
  "is_delta_counter k (counter_dec key v reg) = is_delta_counter k reg"
  by (simp add: is_delta_counter_def counter_dec_def map_of_dec_counter split: option.splits)

lemma collect_values_lines:
  "snd (collect_values gdn self ts key isd vals st) =
     snd st @ map (\<lambda>(value_key, v).
        get_metric_line self (get_metric_name gdn (prefix self) key value_key isd) v ts) vals"
proof (induction vals arbitrary: st)
  case Nil
  show ?case by simp
next
  case (Cons p vals)
  obtain value_key v where p: "p = (value_key, v)" by (cases p)
  obtain reg md where st: "st = (reg, md)" by (cases st)
  show ?case by (simp add: p st Cons.IH Let_def)
qed

lemma collect_values_is_delta:
  "is_delta_counter k (fst (collect_values gdn self ts key isd vals st)) =
     is_delta_counter k (fst st)"
proof (induction vals arbitrary: st)
  case Nil
  show ?case by simp
next
  case (Cons p vals)
  obtain value_key v where p: "p = (value_key, v)" by (cases p)
  obtain reg md where st: "st = (reg, md)" by (cases st)
  show ?case by (simp add: p st Cons.IH Let_def is_delta_counter_dec)
qed

lemma collect_keys_lines:
  "snd (collect_keys gdn self ts snap st) =
     snd st @ concat (map (\<lambda>(key, vals). map (\<lambda>(value_key, v).
        get_metric_line self
          (get_metric_name gdn (prefix self) key value_key (is_delta_counter key (fst st))) v ts)
        vals) snap)"
proof (induction snap arbitrary: st)
  case Nil
  show ?case by simp
next
  case (Cons p snap)
  obtain key vals where p: "p = (key, vals)" by (cases p)
  obtain reg md where st: "st = (reg, md)" by (cases st)
  show ?case
    by (simp add: p st Cons.IH Let_def collect_values_lines collect_values_is_delta)
qed

lemma collect_keys_append:
  "collect_keys gdn self ts (xs @ ys) st = collect_keys gdn self ts ys (collect_keys gdn self ts xs st)"
proof (induction xs arbitrary: st)
  case Nil
  show ?case by simp
next
  case (Cons p xs)
  obtain key vals where p: "p = (key, vals)" by (cases p)
  obtain reg md where st: "st = (reg, md)" by (cases st)
  show ?case by (simp add: p st Cons.IH Let_def)
qed

lemma collect_metrics_lines:
  "snd (collect_metrics gdn self reg ts) =
     concat (map (\<lambda>(key, vals). map (\<lambda>(value_key, v).
        get_metric_line self
          (get_metric_name gdn (prefix self) key value_key (is_delta_counter key reg)) v ts)
        vals) (dump_metrics reg))"
  by (simp add: collect_metrics_def collect_keys_lines)

text \<open>
  What one collection does to the counter under one key: entries of the snapshot under
  other keys leave it alone, its own entry decrements it, and no collection adds or
  removes keys.
\<close>

lemma collect_values_other_key:
  "k \<noteq> key \<Longrightarrow>
   map_of (counters (fst (collect_values gdn self ts k isd vals st))) key =
     map_of (counters (fst st)) key"
proof (induction vals arbitrary: st)
  case Nil
  show ?case by simp
next
  case (Cons p vals)
  obtain value_key v where p: "p = (value_key, v)" by (cases p)
  obtain reg md where st: "st = (reg, md)" by (cases st)
  show ?case
    using Cons.prems by (simp add: p st Cons.IH Let_def counter_dec_def map_of_dec_counter)
qed

lemma collect_keys_other_keys:
  "\<forall>p\<in>set snap. fst p \<noteq> key \<Longrightarrow>
   map_of (counters (fst (collect_keys gdn self ts snap st))) key =
     map_of (counters (fst st)) key"
proof (induction snap arbitrary: st)
  case Nil
  show ?case by simp
next
  case (Cons p snap)
  obtain k vals where p: "p = (k, vals)" by (cases p)
  obtain reg md where st: "st = (reg, md)" by (cases st)
  have k: "k \<noteq> key" using Cons.prems by (simp add: p)
  have rest: "\<forall>p\<in>set snap. fst p \<noteq> key" using Cons.prems by simp
  show ?case
    by (simp add: p st Let_def Cons.IH [OF rest] collect_values_other_key [OF k])
qed

lemma collect_keys_own_entry:
  assumes "map_of (counters (fst st)) key = Some c" and "delta c"
  shows "map_of (counters (fst (collect_keys gdn self ts [(key, [(''count'', n)])] st))) key =
     Some (c\<lparr>count := count c - n\<rparr>)"
proof -
  obtain reg md where st: "st = (reg, md)" by (cases st)
  show ?thesis
    using assms by (simp add: st Let_def is_delta_counter_def counter_dec_def map_of_dec_counter)
qed

lemma dec_counter_keys:
  "key \<in> fst ` set cs \<Longrightarrow> map fst (dec_counter key v cs) = map fst cs"
proof (induction cs)
  case Nil
  then show ?case by simp
next
  case (Cons p cs)
  obtain k c where p: "p = (k, c)" by (cases p)
  show ?case
  proof (cases "k = key")
    case True
    then show ?thesis by (simp add: p)
  next
    case False
    with Cons.prems have "key \<in> fst ` set cs" by (auto simp: p)
    from Cons.IH [OF this] False show ?thesis by (simp add: p)
  qed
qed

lemma is_delta_counter_key:
  "is_delta_counter key reg \<Longrightarrow> key \<in> fst ` set (counters reg)"
  by (auto simp: is_delta_counter_def split: option.splits dest!: map_of_SomeD intro: rev_image_eqI)

lemma collect_values_keys:
  "(isd \<longrightarrow> key \<in> fst ` set (counters (fst st))) \<Longrightarrow>
   map fst (counters (fst (collect_values gdn self ts key isd vals st))) = map fst (counters (fst st))
   \<and> others (fst (collect_values gdn self ts key isd vals st)) = others (fst st)"
proof (induction vals arbitrary: st)
  case Nil
  show ?case by simp
next
  case (Cons p vals)
  obtain value_key v where p: "p = (value_key, v)" by (cases p)
  obtain reg md where st: "st = (reg, md)" by (cases st)
  let ?reg1 = "if isd then counter_dec key v reg else reg"
  have keys: "map fst (counters ?reg1) = map fst (counters reg)" and oth: "others ?reg1 = others reg"
    using Cons.prems by (simp_all add: st counter_dec_def dec_counter_keys)
  have "isd \<longrightarrow> key \<in> fst ` set (counters (fst (?reg1, md @ [get_metric_line self
      (get_metric_name gdn (prefix self) key value_key isd) v ts])))"
  proof
    assume isd
    then have "key \<in> set (map fst (counters reg))" using Cons.prems by (simp add: st)
    then have "key \<in> set (map fst (counters ?reg1))" by (simp only: keys)
    then show "key \<in> fst ` set (counters (fst (?reg1, md @ [get_metric_line self
      (get_metric_name gdn (prefix self) key value_key isd) v ts])))" by simp
  qed
  from Cons.IH [OF this] keys oth show ?case by (simp add: p st Let_def)
qed

lemma collect_keys_keys:
  "map fst (counters (fst (collect_keys gdn self ts snap st))) = map fst (counters (fst st))
   \<and> others (fst (collect_keys gdn self ts snap st)) = others (fst st)"
proof (induction snap arbitrary: st)
  case Nil
  show ?case by simp
next
  case (Cons p snap)
  obtain k vals where p: "p = (k, vals)" by (cases p)
  obtain reg md where st: "st = (reg, md)" by (cases st)
  have "is_delta_counter k reg \<longrightarrow> k \<in> fst ` set (counters (fst (reg, md)))"
    by (simp add: is_delta_counter_key)
  from collect_values_keys [OF this] show ?case
    by (simp add: p st Let_def Cons.IH)
qed

lemma snapshot_entry:
  assumes "distinct (map fst (counters reg))" and "map_of (counters reg) key = Some c"
      and "key \<notin> fst ` set (others reg)"
  shows "filter (\<lambda>p. fst p = key) (dump_metrics reg) = [(key, [(''count'', count c)])]"
proof -
  from assms(2) have "(key, c) \<in> set (counters reg)" by (rule map_of_SomeD)
  then obtain cs1 cs2 where cs: "counters reg = cs1 @ (key, c) # cs2"
    by (auto dest: split_list)
  have n1: "key \<notin> fst ` set cs1" and n2: "key \<notin> fst ` set cs2"
    using assms(1) by (auto simp: cs)
  have f1: "filter (\<lambda>p. fst p = key) (map dump_counter cs1) = []"
    using n1 by (auto simp: filter_empty_conv dump_counter_def)
  have f2: "filter (\<lambda>p. fst p = key) (map dump_counter cs2) = []"
    using n2 by (auto simp: filter_empty_conv dump_counter_def)
  have f3: "filter (\<lambda>p. fst p = key) (others reg) = []"
    using assms(3) by (auto simp: filter_empty_conv)
  show ?thesis
    by (simp add: dump_metrics_def cs f1 f2 f3) (simp add: dump_counter_def)
qed

lemma reported_line_member:
  assumes "(key, [(''count'', n)]) \<in> set (dump_metrics reg)" and "is_delta_counter key reg"
  shows "get_metric_line self (gdn (prefix self) key ''count'') n ts
     \<in> set (snd (collect_metrics gdn self reg ts))"
  unfolding collect_metrics_lines using assms
  by (force simp: get_metric_name_def)

lemma collect_metrics_own_counter:
  assumes d: "distinct (map fst (counters reg))" and m: "(key, c) \<in> set (counters reg)"
      and dl: "delta c" and o: "key \<notin> fst ` set (others reg)"
  shows "map_of (counters (fst (collect_metrics gdn self reg ts))) key =
     Some (c\<lparr>count := count c - count c\<rparr>)"
proof -
  from m obtain cs1 cs2 where cs: "counters reg = cs1 @ (key, c) # cs2"
    by (auto dest: split_list)
  have n1: "key \<notin> fst ` set cs1" and n2: "key \<notin> fst ` set cs2"
    using d by (auto simp: cs)
  have m0: "map_of (counters reg) key = Some c"
    using d m by simp
  let ?s1 = "collect_keys gdn self ts (map dump_counter cs1) (reg, [])"
  let ?s2 = "collect_keys gdn self ts [(key, [(''count'', count c)])] ?s1"
  let ?s3 = "collect_keys gdn self ts (map dump_counter cs2 @ others reg) ?s2"
  have split: "collect_metrics gdn self reg ts = ?s3"
    by (simp add: collect_metrics_def dump_metrics_def cs collect_keys_append [symmetric])
       (simp add: dump_counter_def)
  have a1: "\<forall>p\<in>set (map dump_counter cs1). fst p \<noteq> key"
    using n1 by (auto simp: dump_counter_def image_iff)
  have a3: "\<forall>p\<in>set (map dump_counter cs2 @ others reg). fst p \<noteq> key"
    using n2 o by (auto simp: dump_counter_def image_iff)
  have m1: "map_of (counters (fst ?s1)) key = Some c"
    using collect_keys_other_keys [OF a1, of gdn self ts "(reg, [])"] m0 by simp
  have m2: "map_of (counters (fst ?s2)) key = Some (c\<lparr>count := count c - count c\<rparr>)"
    by (rule collect_keys_own_entry [OF m1 dl])
  have "map_of (counters (fst ?s3)) key = Some (c\<lparr>count := count c - count c\<rparr>)"
    using collect_keys_other_keys [OF a3, of gdn self ts ?s2] m2 by simp
  then show ?thesis by (simp only: split)
qed

section \<open>Lemmas about the proxy delivery\<close>






section \<open>Lemmas about the direct delivery\<close>

lemma chunks_from_concat:
  "0 < k \<Longrightarrow> concat (chunks_from i xs k) = drop i xs"
proof (induction i xs k rule: chunks_from.induct)
  case (1 i metrics chunk_size)
  show ?case
  proof (cases "i < length metrics")
    case True
    have "concat (chunks_from i metrics chunk_size) =
        take chunk_size (drop i metrics) @ concat (chunks_from (i + chunk_size) metrics chunk_size)"
      using True "1.prems" by (subst chunks_from.simps) simp
    also have "\<dots> = take chunk_size (drop i metrics) @ drop (i + chunk_size) metrics"
      using "1.IH" True "1.prems" by simp
    also have "\<dots> = drop i metrics"
      by (metis add.commute append_take_drop_id drop_drop)
    finally show ?thesis .
  next
    case False
    then show ?thesis by (subst chunks_from.simps) simp
  qed
qed

lemma chunks_from_lengths:
  "0 < k \<Longrightarrow> map length (chunks_from i xs k) =
     replicate ((length xs - i) div k) k @
       (if (length xs - i) mod k = 0 then [] else [(length xs - i) mod k])"
proof (induction i xs k rule: chunks_from.induct)
  case (1 i metrics chunk_size)
  let ?m = "length metrics - i"
  show ?case
  proof (cases "i < length metrics")
    case True
    have step: "map length (chunks_from i metrics chunk_size) =
        min ?m chunk_size # map length (chunks_from (i + chunk_size) metrics chunk_size)"
      using True "1.prems" by (subst chunks_from.simps) (simp add: min.commute)
    have ih: "map length (chunks_from (i + chunk_size) metrics chunk_size) =
        replicate ((?m - chunk_size) div chunk_size) chunk_size @
          (if (?m - chunk_size) mod chunk_size = 0 then [] else [(?m - chunk_size) mod chunk_size])"
      using "1.IH" True "1.prems" by simp
    show ?thesis
    proof (cases "chunk_size \<le> ?m")
      case True
      then have d: "?m div chunk_size = Suc ((?m - chunk_size) div chunk_size)"
        using "1.prems" by (simp add: le_div_geq)
      have m: "?m mod chunk_size = (?m - chunk_size) mod chunk_size"
        using True by (simp add: le_mod_geq)
      show ?thesis unfolding step ih d m using True by (simp add: min_def)
    next
      case False
      then have "?m div chunk_size = 0" "?m mod chunk_size = ?m" "?m - chunk_size = 0" by simp_all
      then show ?thesis unfolding step ih using False \<open>i < length metrics\<close> by (simp add: min_def)
    qed
  next
    case False
    then show ?thesis by (subst chunks_from.simps) simp
  qed
qed

lemma report_chunks_events:
  "http_events (report_chunks respond self chunks w) =
     http_events w @ concat (map (\<lambda>(i, chunk).
        Post (server self @ ''/report'') (params self) (headers self) (join [CHR 0x0A] chunk)
        # (case respond i of
             PostRaises \<Rightarrow> [LogFailure RequestException]
           | Status status \<Rightarrow>
               if 400 \<le> status \<and> status < 600 then [LogFailure (HTTPError status)] else []))
       (List.enumerate (posts w) chunks))
   \<and> posts (report_chunks respond self chunks w) = posts w + length chunks"
proof (induction chunks arbitrary: w)
  case Nil
  show ?case by simp
next
  case (Cons chunk chunks)
  show ?case
    by (simp add: Cons.IH Let_def direct_report_points_def raise_for_status_def
        split: http_result.splits)
qed

lemma report_chunks_posts:
  "filter is_Post (http_events (report_chunks respond self chunks w)) =
     filter is_Post (http_events w) @
       map (\<lambda>chunk. Post (server self @ ''/report'') (params self) (headers self)
                        (join [CHR 0x0A] chunk)) chunks"
proof (induction chunks arbitrary: w)
  case Nil
  show ?case by simp
next
  case (Cons chunk chunks)
  show ?case
    by (simp add: Cons.IH Let_def direct_report_points_def split: http_result.splits)
qed

section \<open>More lemmas about the proxy delivery\<close>



text \<open>
  An exception that is not \<^verbatim>\<open>socket.error\<close> is caught by the second handler: it is logged
  and nothing is retried, whatever \<^verbatim>\<open>reconnect\<close> is.
\<close>

lemma other_exception_logged:
  "proxy_report_points_try net self metrics w = (Raises OtherException, self1, w1) \<Longrightarrow>
   proxy_report_points net self metrics reconnect w = (self1, log_error OtherException w1)"
  by (subst proxy_report_points.simps) simp

section \<open>Lemmas about construction\<close>

lemma init_cases:
  "WavefrontDirectReporter_init up srv tok src reg pfx tags =
     (case validate_url up srv of
        Inl e \<Rightarrow> Inl e
      | Inr srv1 \<Rightarrow> Inr (reporter.extend (WavefrontReporter_init src reg pfx tags)
                    (direct_reporter.fields srv1 tok 10000
                       [(''Content-Type'', ''text/plain''), (''Authorization'', ''Bearer '' @ tok)]
                       [(''f'', ''graphite_v2'')])))"
  by (simp add: WavefrontDirectReporter_init_def Let_def)

lemma urlparse_errors: "urlparse srv = Inl e \<Longrightarrow> e = ValueError ''Invalid IPv6 URL''"
  by (auto simp: urlparse_def Let_def split: if_splits)

section \<open>Lemmas about the line formatter\<close>

lemma get_metric_line_fmt_shape:
  \<open>get_metric_line_fmt fmt self name v timestamp =
      name @ '' '' @ fmt v
        @ (if timestamp = None \<or> timestamp = Some 0 then [] else '' '' @ str_int (the timestamp))
        @ '' source="'' @ source self @ ''" '' @ tagStr self\<close>
  by (cases timestamp) (simp_all add: get_metric_line_fmt_def truthy_def)

lemma get_metric_line_fmt_omits:
  "(get_metric_line_fmt fmt self name v timestamp = get_metric_line_fmt fmt self name v None)
     = (timestamp = None \<or> timestamp = Some 0)"
proof (cases "timestamp = None \<or> timestamp = Some 0")
  case True
  then show ?thesis by (auto simp: get_metric_line_fmt_def truthy_def)
next
  case False
  then have "length (get_metric_line_fmt fmt self name v timestamp)
      \<noteq> length (get_metric_line_fmt fmt self name v None)"
    by (cases timestamp) (simp_all add: get_metric_line_fmt_def truthy_def)
  then show ?thesis using False by auto
qed

section \<open>The claims\<close>

subsection \<open>Delta counters are reset on read\<close>

text \<open>
  C1, as stated, fails: the claim is about every delta counter key. A delta counter
  whose key is also the key of another metric (here a gauge; the registry keeps counters
  and gauges in dictionaries of their own) is decremented once for every value read
  under the key, by 7 and by 3: it is left at -3, and the second report carries -3 for
  it, not 0.
\<close>

theorem shared_key_not_reset:
  \<open>collect_metrics (\<lambda>p n k. ''delta.'' @ p @ n @ ''.'' @ k)
      (WavefrontReporter_init ''host1'' \<lparr>counters = [], others = []\<rparr> ''proxy.'' None)
      \<lparr>counters = [(''x'', \<lparr>delta = True, count = 7\<rparr>)], others = [(''x'', [(''value'', 3)])]\<rparr>
      None
    = (\<lparr>counters = [(''x'', \<lparr>delta = True, count = - 3\<rparr>)], others = [(''x'', [(''value'', 3)])]\<rparr>,
       [''delta.proxy.x.count 7 source="host1" '', ''delta.proxy.x.value 3 source="host1" ''])
   \<and> snd (collect_metrics (\<lambda>p n k. ''delta.'' @ p @ n @ ''.'' @ k)
      (WavefrontReporter_init ''host1'' \<lparr>counters = [], others = []\<rparr> ''proxy.'' None)
      \<lparr>counters = [(''x'', \<lparr>delta = True, count = - 3\<rparr>)], others = [(''x'', [(''value'', 3)])]\<rparr>
      None)
    = [''delta.proxy.x.count -3 source="host1" '', ''delta.proxy.x.value 3 source="host1" '']\<close>
proof -
  have s: "str_int 7 = ''7''" "str_int 3 = ''3''" "str_int (- 3) = ''-3''"
    by (simp_all add: str_int_def str_nat.simps digit_char_def)
  show ?thesis
    by (simp add: collect_metrics_def dump_metrics_def dump_counter_def is_delta_counter_def
        counter_dec_def get_metric_name_def get_metric_line_def get_metric_line_fmt_def
        truthy_def WavefrontReporter_init_def s)
qed

text \<open>
  C1, amended. For every delta counter key that no other metric of the registry is
  registered under, collecting the metrics decrements the counter by exactly the value
  read from the snapshot and reported, so a second report right after the first one
  reports 0 for it. With the counters a dictionary (distinct keys), \<open>c\<close> a delta counter
  under \<open>key\<close> and no other metric under \<open>key\<close>: one collection leaves the counter at
  \<open>count c - count c\<close>; the snapshot holds one entry for the key, with the single value
  \<open>count c\<close>, and the line of that value is in the report; the snapshot read next holds
  one entry for the key, with the value 0, and its line is in the second report (at any
  timestamp \<open>ts2\<close>); and every report renders its snapshot entry by entry. Other keys may
  be shared or not.
\<close>

theorem delta_reset_on_read:
  assumes d: "distinct (map fst (counters reg))" and m: "(key, c) \<in> set (counters reg)"
      and dl: "delta c" and o: "key \<notin> fst ` set (others reg)"
  shows "map_of (counters (fst (collect_metrics gdn self reg ts))) key =
            Some (c\<lparr>count := count c - count c\<rparr>)
    \<and> filter (\<lambda>p. fst p = key) (dump_metrics reg) = [(key, [(''count'', count c)])]
    \<and> get_metric_line self (gdn (prefix self) key ''count'') (count c) ts
         \<in> set (snd (collect_metrics gdn self reg ts))
    \<and> filter (\<lambda>p. fst p = key) (dump_metrics (fst (collect_metrics gdn self reg ts))) =
         [(key, [(''count'', 0)])]
    \<and> get_metric_line self (gdn (prefix self) key ''count'') 0 ts2
         \<in> set (snd (collect_metrics gdn self (fst (collect_metrics gdn self reg ts)) ts2))
    \<and> (\<forall>r t. snd (collect_metrics gdn self r t) =
          concat (map (\<lambda>(k, vals). map (\<lambda>(value_key, v).
            get_metric_line self
              (get_metric_name gdn (prefix self) k value_key (is_delta_counter k r)) v t)
            vals) (dump_metrics r)))"
proof (intro conjI allI)
  let ?reg1 = "fst (collect_metrics gdn self reg ts)"
  have m0: "map_of (counters reg) key = Some c"
    using d m by simp
  show m1: "map_of (counters ?reg1) key = Some (c\<lparr>count := count c - count c\<rparr>)"
    by (rule collect_metrics_own_counter [OF d m dl o])
  show e0: "filter (\<lambda>p. fst p = key) (dump_metrics reg) = [(key, [(''count'', count c)])]"
    by (rule snapshot_entry [OF d m0 o])
  have keys: "map fst (counters ?reg1) = map fst (counters reg)" and oth: "others ?reg1 = others reg"
    using collect_keys_keys [of gdn self ts "dump_metrics reg" "(reg, [])"]
    by (simp_all add: collect_metrics_def)
  have d1: "distinct (map fst (counters ?reg1))" using d by (simp only: keys)
  have o1: "key \<notin> fst ` set (others ?reg1)" using o by (simp add: oth)
  show e1: "filter (\<lambda>p. fst p = key) (dump_metrics ?reg1) = [(key, [(''count'', 0)])]"
    using snapshot_entry [OF d1 m1 o1] by simp
  have i0: "(key, [(''count'', count c)]) \<in> set (dump_metrics reg)"
  proof -
    have "(key, [(''count'', count c)]) \<in> set (filter (\<lambda>p. fst p = key) (dump_metrics reg))"
      by (simp only: e0 list.set_intros(1))
    then show ?thesis by simp
  qed
  have i1: "(key, [(''count'', 0)]) \<in> set (dump_metrics ?reg1)"
  proof -
    have "(key, [(''count'', 0)]) \<in> set (filter (\<lambda>p. fst p = key) (dump_metrics ?reg1))"
      by (simp only: e1 list.set_intros(1))
    then show ?thesis by simp
  qed
  have isd0: "is_delta_counter key reg"
    using m0 dl by (simp add: is_delta_counter_def)
  have isd1: "is_delta_counter key ?reg1"
    using m1 dl by (simp add: is_delta_counter_def)
  show "get_metric_line self (gdn (prefix self) key ''count'') (count c) ts
         \<in> set (snd (collect_metrics gdn self reg ts))"
    by (rule reported_line_member [OF i0 isd0])
  show "get_metric_line self (gdn (prefix self) key ''count'') 0 ts2
         \<in> set (snd (collect_metrics gdn self ?reg1 ts2))"
    by (rule reported_line_member [OF i1 isd1])
  show "\<And>r t. snd (collect_metrics gdn self r t) =
          concat (map (\<lambda>(k, vals). map (\<lambda>(value_key, v).
            get_metric_line self
              (get_metric_name gdn (prefix self) k value_key (is_delta_counter k r)) v t)
            vals) (dump_metrics r))"
    by (rule collect_metrics_lines)
qed

text \<open>
  The theorem at the delta counter \<^verbatim>\<open>hits\<close> at 7, in a registry where another delta
  counter shares its key with a gauge: the first report carries 7 for \<^verbatim>\<open>hits\<close> and leaves
  it at 0, the second report carries 0.
\<close>

theorem delta_reset_on_read_witness:
  \<open>map_of (counters (fst (collect_metrics (\<lambda>p n k. ''delta.'' @ p @ n @ ''.'' @ k)
      (WavefrontReporter_init ''host1'' \<lparr>counters = [], others = []\<rparr> ''proxy.'' None)
      \<lparr>counters = [(''hits'', \<lparr>delta = True, count = 7\<rparr>), (''x'', \<lparr>delta = True, count = 4\<rparr>)],
        others = [(''x'', [(''value'', 3)])]\<rparr>
      None))) ''hits'' = Some \<lparr>delta = True, count = 0\<rparr>
   \<and> ''delta.proxy.hits.count 7 source="host1" ''
       \<in> set (snd (collect_metrics (\<lambda>p n k. ''delta.'' @ p @ n @ ''.'' @ k)
            (WavefrontReporter_init ''host1'' \<lparr>counters = [], others = []\<rparr> ''proxy.'' None)
            \<lparr>counters = [(''hits'', \<lparr>delta = True, count = 7\<rparr>), (''x'', \<lparr>delta = True, count = 4\<rparr>)],
              others = [(''x'', [(''value'', 3)])]\<rparr>
            None))
   \<and> ''delta.proxy.hits.count 0 source="host1" ''
       \<in> set (snd (collect_metrics (\<lambda>p n k. ''delta.'' @ p @ n @ ''.'' @ k)
            (WavefrontReporter_init ''host1'' \<lparr>counters = [], others = []\<rparr> ''proxy.'' None)
            (fst (collect_metrics (\<lambda>p n k. ''delta.'' @ p @ n @ ''.'' @ k)
              (WavefrontReporter_init ''host1'' \<lparr>counters = [], others = []\<rparr> ''proxy.'' None)
              \<lparr>counters = [(''hits'', \<lparr>delta = True, count = 7\<rparr>), (''x'', \<lparr>delta = True, count = 4\<rparr>)],
                others = [(''x'', [(''value'', 3)])]\<rparr>
              None))
            None))\<close>
proof -
  let ?gdn = "\<lambda>p n k. ''delta.'' @ p @ n @ ''.'' @ k"
  let ?self = "WavefrontReporter_init ''host1'' \<lparr>counters = [], others = []\<rparr> ''proxy.'' None"
  let ?reg = "\<lparr>counters = [(''hits'', \<lparr>delta = True, count = 7\<rparr>), (''x'', \<lparr>delta = True, count = 4\<rparr>)],
        others = [(''x'', [(''value'', 3)])]\<rparr>"
  have d: "distinct (map fst (counters ?reg))" by simp
  have m: "(''hits'', \<lparr>delta = True, count = 7\<rparr>) \<in> set (counters ?reg)" by simp
  have dl: "delta \<lparr>delta = True, count = 7\<rparr>" by simp
  have o: "''hits'' \<notin> fst ` set (others ?reg)" by simp
  have s: "str_int 7 = ''7''" "str_int 0 = ''0''"
    by (simp_all add: str_int_def str_nat.simps digit_char_def)
  have l7: \<open>get_metric_line ?self (?gdn (prefix ?self) ''hits'' ''count'')
              (count \<lparr>delta = True, count = 7\<rparr>) None
            = ''delta.proxy.hits.count 7 source="host1" ''\<close>
    by (simp add: get_metric_line_def get_metric_line_fmt_def truthy_def
        WavefrontReporter_init_def s)
  have l0: \<open>get_metric_line ?self (?gdn (prefix ?self) ''hits'' ''count'') 0 None
            = ''delta.proxy.hits.count 0 source="host1" ''\<close>
    by (simp add: get_metric_line_def get_metric_line_fmt_def truthy_def
        WavefrontReporter_init_def s)
  note th = delta_reset_on_read [OF d m dl o, of ?gdn ?self None None]
  have a: "map_of (counters (fst (collect_metrics ?gdn ?self ?reg None))) ''hits''
      = Some \<lparr>delta = True, count = 0\<rparr>"
    using th [THEN conjunct1] by simp
  have b: \<open>''delta.proxy.hits.count 7 source="host1" ''
       \<in> set (snd (collect_metrics ?gdn ?self ?reg None))\<close>
    using th [THEN conjunct2, THEN conjunct2, THEN conjunct1] unfolding l7 .
  have c: \<open>''delta.proxy.hits.count 0 source="host1" ''
       \<in> set (snd (collect_metrics ?gdn ?self (fst (collect_metrics ?gdn ?self ?reg None)) None))\<close>
    using th [THEN conjunct2, THEN conjunct2, THEN conjunct2, THEN conjunct2, THEN conjunct1]
    unfolding l0 .
  from a b c show ?thesis by blast
qed

subsection \<open>Proxy delivery retries once\<close>



subsection \<open>Direct delivery sends chunks\<close>

text \<open>
  C3. For a positive batch size, the lines are split into consecutive chunks: the
  chunks concatenate to the original list, every chunk has the batch size but possibly
  the last, which is shorter and not empty; \<^verbatim>\<open>report_now\<close> runs the POST loop on these
  chunks, and the loop issues one POST per chunk, in order, whatever the responses. 25000
  lines at the batch size 10000 give chunks of 10000, 10000 and 5000 lines, and 10000 is
  the batch size of every reporter the constructor returns.
\<close>

theorem direct_chunking:
  assumes "0 < chunk_size"
  shows "get_chunks metrics chunk_size = Inr (chunks_from 0 metrics (nat chunk_size))
    \<and> concat (chunks_from 0 metrics (nat chunk_size)) = metrics
    \<and> map length (chunks_from 0 metrics (nat chunk_size)) =
        replicate (length metrics div nat chunk_size) (nat chunk_size) @
          (if length metrics mod nat chunk_size = 0 then []
           else [length metrics mod nat chunk_size])
    \<and> (batch_size self = chunk_size \<and>
         snd (collect_metrics gdn self (case reg of None \<Rightarrow> registry self | Some r \<Rightarrow> r) None) = metrics
        \<longrightarrow> snd (snd (direct_report_now gdn respond self reg timestamp w)) =
              report_chunks respond self (chunks_from 0 metrics (nat chunk_size)) w)
    \<and> filter is_Post (http_events (report_chunks respond self (chunks_from 0 metrics (nat chunk_size)) w)) =
        filter is_Post (http_events w) @
          map (\<lambda>chunk. Post (server self @ ''/report'') (params self) (headers self)
                           (join [CHR 0x0A] chunk)) (chunks_from 0 metrics (nat chunk_size))
    \<and> (length metrics = 25000 \<and> chunk_size = 10000 \<longrightarrow>
          map length (chunks_from 0 metrics (nat chunk_size)) = [10000, 10000, 5000])
    \<and> (case WavefrontDirectReporter_init up srv tok src reg0 pfx tags of
          Inl e \<Rightarrow> True | Inr r \<Rightarrow> batch_size r = 10000)"
proof (intro conjI impI)
  have k: "0 < nat chunk_size" using assms by simp
  show g: "get_chunks metrics chunk_size = Inr (chunks_from 0 metrics (nat chunk_size))"
    using assms by (simp add: get_chunks_def)
  show "concat (chunks_from 0 metrics (nat chunk_size)) = metrics"
    using chunks_from_concat [OF k, of 0 metrics] by simp
  show l: "map length (chunks_from 0 metrics (nat chunk_size)) =
        replicate (length metrics div nat chunk_size) (nat chunk_size) @
          (if length metrics mod nat chunk_size = 0 then []
           else [length metrics mod nat chunk_size])"
    using chunks_from_lengths [OF k, of 0 metrics] by simp
  show "filter is_Post (http_events (report_chunks respond self (chunks_from 0 metrics (nat chunk_size)) w)) =
        filter is_Post (http_events w) @
          map (\<lambda>chunk. Post (server self @ ''/report'') (params self) (headers self)
                           (join [CHR 0x0A] chunk)) (chunks_from 0 metrics (nat chunk_size))"
    by (rule report_chunks_posts)
  show "case WavefrontDirectReporter_init up srv tok src reg0 pfx tags of
          Inl e \<Rightarrow> True | Inr r \<Rightarrow> batch_size r = 10000"
    by (simp add: init_cases reporter.extend_def direct_reporter.fields_def
        WavefrontReporter_init_def Let_def split: sum.splits)
  {
    assume a: "batch_size self = chunk_size \<and>
         snd (collect_metrics gdn self (case reg of None \<Rightarrow> registry self | Some r \<Rightarrow> r) None) = metrics"
    have e: "chunks_from 0 [] (nat chunk_size) = []"
      by (subst chunks_from.simps) simp
    show "snd (snd (direct_report_now gdn respond self reg timestamp w)) =
              report_chunks respond self (chunks_from 0 metrics (nat chunk_size)) w"
      using a g e by (auto simp: direct_report_now_def Let_def split: prod.splits)
  }
  {
    assume "length metrics = 25000 \<and> chunk_size = 10000"
    then show "map length (chunks_from 0 metrics (nat chunk_size)) = [10000, 10000, 5000]"
      unfolding l by (simp add: numeral_2_eq_2)
  }
qed

text \<open>
  The theorem at 25000 lines with the batch size 10000, and at a registry of three
  readings with the batch size 2, where \<^verbatim>\<open>report_now\<close> posts two bodies.
\<close>

theorem direct_chunking_witness:
  \<open>map length (chunks_from 0 (replicate 25000 ''m 1'') (nat 10000)) = [10000, 10000, 5000]
   \<and> get_chunks (replicate 25000 ''m 1'') 10000 = Inr (chunks_from 0 (replicate 25000 ''m 1'') (nat 10000))
   \<and> concat (chunks_from 0 (replicate 25000 ''m 1'') (nat 10000)) = replicate 25000 ''m 1''
   \<and> http_events (snd (snd (direct_report_now (\<lambda>p n k. p @ n @ k) (\<lambda>i. Status 200)
        \<lparr>registry = \<lparr>counters = [], others = [(''t'', [(''a'', 1), (''b'', 2), (''c'', 3)])]\<rparr>,
         source = ''h'', prefix = ''d.'', tagStr = [], server = ''https://w.example'', token = ''t'',
         batch_size = 2, headers = [], params = [(''f'', ''graphite_v2'')]\<rparr>
        None None \<lparr>posts = 0, http_events = []\<rparr>)))
     = [Post ''https://w.example/report'' [(''f'', ''graphite_v2'')] []
          (''d.t.a 1 source="h" '' @ [CHR 0x0A] @ ''d.t.b 2 source="h" ''),
        Post ''https://w.example/report'' [(''f'', ''graphite_v2'')] [] ''d.t.c 3 source="h" '']\<close>
proof (intro conjI)
  have pos: "(0::int) < 10000" by simp
  have len: "length (replicate 25000 ''m 1'') = 25000 \<and> (10000::int) = 10000" by simp
  note th = direct_chunking [OF pos, of "replicate 25000 ''m 1''"]
  show "map length (chunks_from 0 (replicate 25000 ''m 1'') (nat 10000)) = [10000, 10000, 5000]"
    using th len by blast
  show "get_chunks (replicate 25000 ''m 1'') 10000 = Inr (chunks_from 0 (replicate 25000 ''m 1'') (nat 10000))"
    using th by blast
  show "concat (chunks_from 0 (replicate 25000 ''m 1'') (nat 10000)) = replicate 25000 ''m 1''"
    using th by blast
  let ?self = "\<lparr>registry = \<lparr>counters = [], others = [(''t'', [(''a'', 1), (''b'', 2), (''c'', 3)])]\<rparr>,
         source = ''h'', prefix = ''d.'', tagStr = [], server = ''https://w.example'', token = ''t'',
         batch_size = 2, headers = [], params = [(''f'', ''graphite_v2'')]\<rparr>"
  let ?lines = \<open>[''d.t.a 1 source="h" '', ''d.t.b 2 source="h" '', ''d.t.c 3 source="h" '']\<close>
  let ?w = "\<lparr>posts = 0, http_events = []\<rparr>"
  have two: "(0::int) < 2" by simp
  have s: "str_int 1 = ''1''" "str_int 2 = ''2''" "str_int 3 = ''3''"
    by (simp_all add: str_int_def str_nat.simps digit_char_def)
  have c: "batch_size ?self = 2 \<and>
     snd (collect_metrics (\<lambda>p n k. p @ n @ k) ?self
        (case None of None \<Rightarrow> registry ?self | Some r \<Rightarrow> r) None) = ?lines"
    by (simp add: collect_metrics_def dump_metrics_def is_delta_counter_def
        get_metric_name_def get_metric_line_def get_metric_line_fmt_def truthy_def s)
  have ch: \<open>chunks_from 0 ?lines (nat 2) = [[''d.t.a 1 source="h" '', ''d.t.b 2 source="h" ''], [''d.t.c 3 source="h" '']]\<close>
    by (simp add: chunks_from.simps)
  from direct_chunking [OF two, of ?lines ?self "\<lambda>p n k. p @ n @ k" None "\<lambda>i. Status 200" None ?w] c
  have "snd (snd (direct_report_now (\<lambda>p n k. p @ n @ k) (\<lambda>i. Status 200) ?self None None ?w))
     = report_chunks (\<lambda>i. Status 200) ?self (chunks_from 0 ?lines (nat 2)) ?w"
    by blast
  then show \<open>http_events (snd (snd (direct_report_now (\<lambda>p n k. p @ n @ k) (\<lambda>i. Status 200) ?self None None ?w)))
     = [Post ''https://w.example/report'' [(''f'', ''graphite_v2'')] []
          (''d.t.a 1 source="h" '' @ [CHR 0x0A] @ ''d.t.b 2 source="h" ''),
        Post ''https://w.example/report'' [(''f'', ''graphite_v2'')] [] ''d.t.c 3 source="h" '']\<close>
    unfolding ch by (simp add: direct_report_points_def raise_for_status_def Let_def)
qed

subsection \<open>The timestamp segment of a line\<close>

text \<open>
  C4, as stated, fails: the claim says the timestamp segment is left out if and only if
  no timestamp was supplied. A supplied timestamp of 0 is left out as well, since the
  test \<^verbatim>\<open>if timestamp:\<close> is a truth test.
\<close>

theorem timestamp_zero_omitted:
  \<open>get_metric_line (WavefrontReporter_init ''host1'' \<lparr>counters = [], others = []\<rparr> ''direct.'' None)
      ''direct.requests.count'' 42 (Some 0)
   = ''direct.requests.count 42 source="host1" ''\<close>
  by (simp add: get_metric_line_def get_metric_line_fmt_def truthy_def WavefrontReporter_init_def
      str_int_def str_nat.simps digit_char_def)

text \<open>
  C4, amended. For every name, numeric value, source and tag string, the line leaves
  the timestamp segment out if and only if no timestamp was supplied or the supplied
  timestamp is 0; with any other timestamp the line is the line without one, with the
  segment (a space and the decimal timestamp) inserted after the value. The value \<open>v\<close> is
  of any type, \<open>fmt\<close> being the text Python's \<^verbatim>\<open>format\<close> gives for it (integers and floats
  alike); the last two conjuncts are the same for the integer readings of the collector.
\<close>

theorem timestamp_segment:
  \<open>get_metric_line_fmt fmt self name v timestamp =
      name @ '' '' @ fmt v
        @ (if timestamp = None \<or> timestamp = Some 0 then [] else '' '' @ str_int (the timestamp))
        @ '' source="'' @ source self @ ''" '' @ tagStr self
   \<and> ((get_metric_line_fmt fmt self name v timestamp = get_metric_line_fmt fmt self name v None)
        = (timestamp = None \<or> timestamp = Some 0))
   \<and> get_metric_line self name n timestamp =
      name @ '' '' @ str_int n
        @ (if timestamp = None \<or> timestamp = Some 0 then [] else '' '' @ str_int (the timestamp))
        @ '' source="'' @ source self @ ''" '' @ tagStr self
   \<and> ((get_metric_line self name n timestamp = get_metric_line self name n None)
        = (timestamp = None \<or> timestamp = Some 0))\<close>
  unfolding get_metric_line_def
  by (intro conjI get_metric_line_fmt_shape get_metric_line_fmt_omits)

subsection \<open>Failures of single chunks\<close>

text \<open>
  C5, as stated, fails: the claim says every response outside 2xx is logged. The code
  leaves the decision to \<^verbatim>\<open>raise_for_status\<close>, which raises for 4xx and 5xx only; a
  response 304 is not logged.
\<close>

theorem not_modified_not_logged:
  "http_events (report_chunks (\<lambda>i. Status 304)
      \<lparr>registry = \<lparr>counters = [], others = []\<rparr>, source = ''host1'', prefix = ''direct.'',
        tagStr = [], server = ''https://example.wavefront.com'', token = ''t'',
        batch_size = 10000,
        headers = [(''Content-Type'', ''text/plain''), (''Authorization'', ''Bearer t'')],
        params = [(''f'', ''graphite_v2'')]\<rparr>
      [[''a 1'', ''b 2'']] \<lparr>posts = 0, http_events = []\<rparr>)
   = [Post ''https://example.wavefront.com/report'' [(''f'', ''graphite_v2'')]
        [(''Content-Type'', ''text/plain''), (''Authorization'', ''Bearer t'')]
        (''a 1'' @ [CHR 0x0A] @ ''b 2'')]"
  by (simp add: direct_report_points_def raise_for_status_def Let_def)

text \<open>
  C5, amended. In one cycle every chunk is posted exactly once, in order; a chunk is
  followed by one log entry exactly when its own POST raised or was answered with a
  status from 400 to 599. What happens for a chunk depends on the response to its own
  POST only (\<open>respond\<close> at its own index), not on the other chunks.
\<close>

theorem chunk_isolation:
  "http_events (report_chunks respond self chunks w) =
     http_events w @ concat (map (\<lambda>(i, chunk).
        Post (server self @ ''/report'') (params self) (headers self) (join [CHR 0x0A] chunk)
        # (case respond i of
             PostRaises \<Rightarrow> [LogFailure RequestException]
           | Status status \<Rightarrow>
               if 400 \<le> status \<and> status < 600 then [LogFailure (HTTPError status)] else []))
       (List.enumerate (posts w) chunks))
   \<and> posts (report_chunks respond self chunks w) = posts w + length chunks"
  by (rule report_chunks_events)

subsection \<open>The server URL is validated at construction\<close>

text \<open>
  C6. Constructing a direct reporter succeeds exactly when the server string parses
  with a scheme and a network location, both not empty; an exception of the parser is
  passed on, and a parse with an empty component raises \<^verbatim>\<open>ValueError('invalid server url')\<close>.
  With the parser \<open>urlparse\<close> every failure is a \<^verbatim>\<open>ValueError\<close>; \<^verbatim>\<open>"not-a-url"\<close> fails, and
  a well-formed URL yields a reporter with that server and the batch size 10000. The
  constructor is a function of its arguments: it posts nothing.
\<close>

theorem server_url_validated:
  "((\<exists>r. WavefrontDirectReporter_init up srv tok src reg pfx tags = Inr r)
      = (\<exists>p. up srv = Inr p \<and> scheme p \<noteq> [] \<and> netloc p \<noteq> []))
   \<and> (case up srv of
        Inl e \<Rightarrow> WavefrontDirectReporter_init up srv tok src reg pfx tags = Inl e
      | Inr p \<Rightarrow> (scheme p = [] \<or> netloc p = [])
          = (WavefrontDirectReporter_init up srv tok src reg pfx tags
               = Inl (ValueError ''invalid server url'')))
   \<and> ((\<exists>r. WavefrontDirectReporter_init urlparse srv tok src reg pfx tags = Inr r)
       \<or> (\<exists>msg. WavefrontDirectReporter_init urlparse srv tok src reg pfx tags
                  = Inl (ValueError msg)))
   \<and> WavefrontDirectReporter_init urlparse ''not-a-url'' tok src reg pfx tags
       = Inl (ValueError ''invalid server url'')
   \<and> (\<exists>r. WavefrontDirectReporter_init urlparse ''https://metrics.wavefront.com'' tok src reg pfx tags
          = Inr r \<and> server r = ''https://metrics.wavefront.com'' \<and> batch_size r = 10000)"
proof (intro conjI)
  show "(\<exists>r. WavefrontDirectReporter_init up srv tok src reg pfx tags = Inr r)
      = (\<exists>p. up srv = Inr p \<and> scheme p \<noteq> [] \<and> netloc p \<noteq> [])"
    by (auto simp: init_cases validate_url_def split: sum.splits)
  show "case up srv of
        Inl e \<Rightarrow> WavefrontDirectReporter_init up srv tok src reg pfx tags = Inl e
      | Inr p \<Rightarrow> (scheme p = [] \<or> netloc p = [])
          = (WavefrontDirectReporter_init up srv tok src reg pfx tags
               = Inl (ValueError ''invalid server url''))"
    by (auto simp: init_cases validate_url_def split: sum.splits)
  show "(\<exists>r. WavefrontDirectReporter_init urlparse srv tok src reg pfx tags = Inr r)
       \<or> (\<exists>msg. WavefrontDirectReporter_init urlparse srv tok src reg pfx tags
                  = Inl (ValueError msg))"
    by (auto simp: init_cases validate_url_def split: sum.splits dest: urlparse_errors)
  have u: "urlparse ''not-a-url'' = Inr \<lparr>scheme = [], netloc = []\<rparr>"
    by (simp add: urlparse_def Let_def is_alpha_def scheme_char_def)
  show "WavefrontDirectReporter_init urlparse ''not-a-url'' tok src reg pfx tags
       = Inl (ValueError ''invalid server url'')"
    by (simp add: init_cases validate_url_def u)
  have v: "urlparse ''https://metrics.wavefront.com''
      = Inr \<lparr>scheme = ''https'', netloc = ''metrics.wavefront.com''\<rparr>"
    by (simp add: urlparse_def Let_def is_alpha_def scheme_char_def lower_char_def)
  show "\<exists>r. WavefrontDirectReporter_init urlparse ''https://metrics.wavefront.com'' tok src reg pfx tags
          = Inr r \<and> server r = ''https://metrics.wavefront.com'' \<and> batch_size r = 10000"
    by (simp add: init_cases validate_url_def v reporter.extend_def direct_reporter.fields_def
        WavefrontReporter_init_def Let_def)
qed

subsection \<open>Wire names\<close>

text \<open>
  C7. The collector renders, for every key and value key of the snapshot in order, one
  line whose name is \<^verbatim>\<open>{prefix}{key}.{value_key}\<close> when the key is not a delta counter, and
  the delta name of the delta module when it is.
\<close>

theorem wire_names:
  "snd (collect_metrics gdn self reg timestamp) =
     concat (map (\<lambda>(key, vals). map (\<lambda>(value_key, v).
        get_metric_line self
          (if is_delta_counter key reg then gdn (prefix self) key value_key
           else prefix self @ key @ ''.'' @ value_key)
          v timestamp) vals) (dump_metrics reg))
   \<and> get_metric_name gdn pfx key value_key False = pfx @ key @ ''.'' @ value_key
   \<and> get_metric_name gdn pfx key value_key True = gdn pfx key value_key"
  by (simp add: collect_metrics_lines get_metric_name_def if_distrib cong: if_cong)

subsection \<open>An end-to-end line\<close>

text \<open>
  C8. The snapshot \<^verbatim>\<open>{"requests": {"count": 42}}\<close> (a plain counter, or any other metric
  dumping that dictionary), the prefix \<^verbatim>\<open>direct.\<close>, the source \<^verbatim>\<open>host1\<close>, no tags and no
  timestamp give exactly one line, which ends with the space before the empty tag string.
\<close>

theorem end_to_end_line:
  \<open>snd (collect_metrics gdn
       (WavefrontReporter_init ''host1'' reg0 ''direct.'' None)
       \<lparr>counters = [(''requests'', \<lparr>delta = False, count = 42\<rparr>)], others = []\<rparr> None)
     = [''direct.requests.count 42 source="host1" '']
   \<and> snd (collect_metrics gdn
       (WavefrontReporter_init ''host1'' reg0 ''direct.'' None)
       \<lparr>counters = [], others = [(''requests'', [(''count'', 42)])]\<rparr> None)
     = [''direct.requests.count 42 source="host1" '']\<close>
  by (simp add: collect_metrics_def dump_metrics_def dump_counter_def is_delta_counter_def
      WavefrontReporter_init_def get_metric_name_def get_metric_line_def get_metric_line_fmt_def truthy_def
      str_int_def str_nat.simps digit_char_def)

subsection \<open>The direct reporter sends no timestamps\<close>

text \<open>
  C9. \<^verbatim>\<open>report_now\<close> of the direct reporter does not depend on its timestamp argument
  (and does not read the clock, which the model of the call does not even take); the
  lines it collects have no timestamp segment, and the bodies it posts are the chunks of
  these lines.
\<close>

theorem direct_lines_without_timestamp:
  \<open>direct_report_now gdn respond self reg timestamp w = direct_report_now gdn respond self reg None w
   \<and> snd (collect_metrics gdn self (case reg of None \<Rightarrow> registry self | Some r \<Rightarrow> r) None) =
       concat (map (\<lambda>(key, vals). map (\<lambda>(value_key, v).
          get_metric_name gdn (prefix self) key value_key
             (is_delta_counter key (case reg of None \<Rightarrow> registry self | Some r \<Rightarrow> r))
           @ '' '' @ str_int v @ '' source="'' @ source self @ ''" '' @ tagStr self) vals)
         (dump_metrics (case reg of None \<Rightarrow> registry self | Some r \<Rightarrow> r)))
   \<and> filter is_Post (http_events (snd (snd (direct_report_now gdn respond self reg timestamp w)))) =
       filter is_Post (http_events w) @
         map (\<lambda>chunk. Post (server self @ ''/report'') (params self) (headers self)
                          (join [CHR 0x0A] chunk))
           (case get_chunks
                   (snd (collect_metrics gdn self (case reg of None \<Rightarrow> registry self | Some r \<Rightarrow> r) None))
                   (batch_size self) of
              Inl e \<Rightarrow> [] | Inr chunks \<Rightarrow> chunks)\<close>
proof (intro conjI)
  show "direct_report_now gdn respond self reg timestamp w = direct_report_now gdn respond self reg None w"
    by (simp add: direct_report_now_def)
  show \<open>snd (collect_metrics gdn self (case reg of None \<Rightarrow> registry self | Some r \<Rightarrow> r) None) =
       concat (map (\<lambda>(key, vals). map (\<lambda>(value_key, v).
          get_metric_name gdn (prefix self) key value_key
             (is_delta_counter key (case reg of None \<Rightarrow> registry self | Some r \<Rightarrow> r))
           @ '' '' @ str_int v @ '' source="'' @ source self @ ''" '' @ tagStr self) vals)
         (dump_metrics (case reg of None \<Rightarrow> registry self | Some r \<Rightarrow> r)))\<close>
    by (simp add: collect_metrics_lines get_metric_line_def get_metric_line_fmt_def truthy_def)
  have e: "\<And>k. chunks_from 0 [] k = []"
    by (subst chunks_from.simps) simp
  show "filter is_Post (http_events (snd (snd (direct_report_now gdn respond self reg timestamp w)))) =
       filter is_Post (http_events w) @
         map (\<lambda>chunk. Post (server self @ ''/report'') (params self) (headers self)
                          (join [CHR 0x0A] chunk))
           (case get_chunks
                   (snd (collect_metrics gdn self (case reg of None \<Rightarrow> registry self | Some r \<Rightarrow> r) None))
                   (batch_size self) of
              Inl e \<Rightarrow> [] | Inr chunks \<Rightarrow> chunks)"
    by (auto simp: direct_report_now_def Let_def report_chunks_posts get_chunks_def e
        split: prod.splits sum.splits)
qed

subsection \<open>The base reporter cannot report\<close>

text \<open>
  C10. \<^verbatim>\<open>report_now\<close> of the base reporter raises \<^verbatim>\<open>NotImplementedError\<close> for every
  reporter, registry and timestamp.
\<close>

theorem base_report_now_raises:
  "WavefrontReporter_report_now self reg timestamp =
     Inl (NotImplementedError ''use WavefrontProxyReporter or WavefrontDirectReporter'')"
  by (simp add: WavefrontReporter_report_now_def)

end
